theory Spec2Isabelle
  imports Main "HOL-Library.Sublist"
begin

section \<open>Strings of the Go standard library\<close>

text \<open>
  A Go string is a byte sequence, here a \<^typ>\<open>string\<close>. The functions of packages
  \<^verbatim>\<open>strings\<close> and \<^verbatim>\<open>path\<close> that repos.go calls are written out on bytes.
\<close>

text \<open>
  White space. \<^verbatim>\<open>strings.Fields\<close> and \<^verbatim>\<open>strings.TrimSpace\<close> decode UTF-8 and test each
  code point with \<^verbatim>\<open>unicode.IsSpace\<close>. The code points that are white space are U+0009 to
  U+000D, U+0020, U+0085, U+00A0, U+1680, U+2000 to U+200A, U+2028, U+2029, U+202F,
  U+205F and U+3000; \<open>spaceRunes\<close> lists their UTF-8 encodings. A byte that starts
  no valid encoding is decoded as one code point that is not white space, and no
  encoding in the list starts inside another code point, so the white-space code
  points of a string are the places where one of these byte sequences stands.
\<close>

definition spaceRunes :: "string list" where
  "spaceRunes =
     [[CHR 0x09], [CHR 0x0A], [CHR 0x0B], [CHR 0x0C], [CHR 0x0D], [CHR 0x20],
      [CHR 0xC2, CHR 0x85], [CHR 0xC2, CHR 0xA0],
      [CHR 0xE1, CHR 0x9A, CHR 0x80],
      [CHR 0xE2, CHR 0x80, CHR 0x80], [CHR 0xE2, CHR 0x80, CHR 0x81],
      [CHR 0xE2, CHR 0x80, CHR 0x82], [CHR 0xE2, CHR 0x80, CHR 0x83],
      [CHR 0xE2, CHR 0x80, CHR 0x84], [CHR 0xE2, CHR 0x80, CHR 0x85],
      [CHR 0xE2, CHR 0x80, CHR 0x86], [CHR 0xE2, CHR 0x80, CHR 0x87],
      [CHR 0xE2, CHR 0x80, CHR 0x88], [CHR 0xE2, CHR 0x80, CHR 0x89],
      [CHR 0xE2, CHR 0x80, CHR 0x8A],
      [CHR 0xE2, CHR 0x80, CHR 0xA8], [CHR 0xE2, CHR 0x80, CHR 0xA9],
      [CHR 0xE2, CHR 0x80, CHR 0xAF], [CHR 0xE2, CHR 0x81, CHR 0x9F],
      [CHR 0xE3, CHR 0x80, CHR 0x80]]"

text \<open>
  \<open>runeWidth ws s\<close> is the length of the member of \<open>ws\<close> that \<open>s\<close> starts with, and
  \<open>0\<close> when it starts with none; \<open>stripRunes ws s\<close> removes members of \<open>ws\<close> from
  the start of \<open>s\<close> until it starts with none.
\<close>

definition runeWidth :: "string list \<Rightarrow> string \<Rightarrow> nat" where
  "runeWidth ws s = (case find (\<lambda>w. prefix w s) ws of None \<Rightarrow> 0 | Some w \<Rightarrow> length w)"

fun stripRunes :: "string list \<Rightarrow> string \<Rightarrow> string" where
  "stripRunes ws [] = []"
| "stripRunes ws (c # cs) =
     (if runeWidth ws (c # cs) = 0 then c # cs
      else stripRunes ws (drop (runeWidth ws (c # cs) - 1) cs))"

text \<open>
  \<^verbatim>\<open>strings.Fields\<close>: the maximal runs of bytes between the white-space code points, in
  order; \<open>cur\<close> is the run collected so far.
\<close>

fun fieldsFrom :: "string \<Rightarrow> string \<Rightarrow> string list" where
  "fieldsFrom cur [] = (if cur = [] then [] else [cur])"
| "fieldsFrom cur (c # cs) =
     (if runeWidth spaceRunes (c # cs) = 0 then fieldsFrom (cur @ [c]) cs
      else if cur = [] then fieldsFrom [] (drop (runeWidth spaceRunes (c # cs) - 1) cs)
      else cur # fieldsFrom [] (drop (runeWidth spaceRunes (c # cs) - 1) cs))"

definition Fields :: "string \<Rightarrow> string list" where
  "Fields s = fieldsFrom [] s"

text \<open>\<^verbatim>\<open>strings.Join\<close>.\<close>

fun Join :: "string list \<Rightarrow> string \<Rightarrow> string" where
  "Join [] sep = []"
| "Join [x] sep = x"
| "Join (x # y # ys) sep = x @ sep @ Join (y # ys) sep"

text \<open>
  \<^verbatim>\<open>strings.ToLower\<close> maps every code point to its lower case by the tables of
  package \<^verbatim>\<open>unicode\<close>. The tables are not written out here: the functions below that
  call \<^verbatim>\<open>strings.ToLower\<close> take it as their first argument, named \<open>ToLower\<close>, and
  what is proved of them holds for every function in its place. SQL \<^verbatim>\<open>lower\<close> is a
  function of the database, see \<open>sql_lower\<close> below. On a string of ASCII bytes both
  move the letters A to Z to a to z and keep the other bytes; that is \<open>asciiToLower\<close>,
  which stands for them in the examples, whose strings are ASCII.
\<close>

definition lowerChar :: "char \<Rightarrow> char" where
  "lowerChar c =
     (if (65::nat) \<le> of_char c \<and> of_char c \<le> (90::nat) then char_of (of_char c + (32::nat)) else c)"

definition asciiToLower :: "string \<Rightarrow> string" where
  "asciiToLower s = map lowerChar s"

text \<open>\<^verbatim>\<open>strings.Contains\<close>.\<close>

fun Contains :: "string \<Rightarrow> string \<Rightarrow> bool" where
  "Contains [] sub = (sub = [])"
| "Contains (c # cs) sub = (prefix sub (c # cs) \<or> Contains cs sub)"

text \<open>
  \<^verbatim>\<open>strings.Split\<close> with a separator of one byte, which is the only way repos.go calls
  it (the separator is a comma): the pieces between the separators, empty pieces included.
\<close>

fun splitFrom :: "string \<Rightarrow> string \<Rightarrow> char \<Rightarrow> string list" where
  "splitFrom cur [] sep = [cur]"
| "splitFrom cur (c # cs) sep =
     (if c = sep then cur # splitFrom [] cs sep else splitFrom (cur @ [c]) cs sep)"

definition Split :: "string \<Rightarrow> char \<Rightarrow> string list" where
  "Split s sep = splitFrom [] s sep"

text \<open>
  \<^verbatim>\<open>strings.TrimSpace\<close>: the white-space code points at the start are removed, then
  those at the end (an encoding at the end of \<open>s\<close> is its reverse at the start of
  \<open>rev s\<close>).
\<close>

definition TrimSpace :: "string \<Rightarrow> string" where
  "TrimSpace s = rev (stripRunes (map rev spaceRunes) (rev (stripRunes spaceRunes s)))"

text \<open>
  \<^verbatim>\<open>path.Base\<close>: the last element of a slash-separated path, after the trailing slashes
  are removed; \<^verbatim>\<open>.\<close> for the empty path and \<^verbatim>\<open>/\<close> for a path of slashes only.
\<close>

definition Base :: "string \<Rightarrow> string" where
  "Base p =
     (if p = [] then ''.''
      else let stripped = rev (dropWhile (\<lambda>c. c = CHR ''/'') (rev p));
               last_elem = rev (takeWhile (\<lambda>c. c \<noteq> CHR ''/'') (rev stripped))
           in if last_elem = [] then ''/'' else last_elem)"

text \<open>Decimal digits of a natural number, as \<^verbatim>\<open>fmt.Sprintf("%d", n)\<close> prints them.\<close>

fun itoa :: "nat \<Rightarrow> string" where
  "itoa n = (if n < 10 then [char_of (48 + n)] else itoa (n div 10) @ [char_of (48 + n mod 10)])"

declare itoa.simps [simp del]

text \<open>
  \<^verbatim>\<open>modl.PostgresDialect{}.BindVar(i)\<close>: the placeholder of the argument at index \<open>i\<close>
  of the argument list, numbered from one.
\<close>

definition BindVar :: "nat \<Rightarrow> string" where
  "BindVar i = ''$'' @ itoa (i + 1)"

section \<open>Data model\<close>

text \<open>
  A point in time (\<^verbatim>\<open>time.Time\<close>, \<^verbatim>\<open>pbtypes.Timestamp\<close>) is the instant it denotes, an
  integer; the zero \<^verbatim>\<open>time.Time\<close> is \<open>0\<close>. A nil pointer to a time is \<open>None\<close>.
\<close>

type_synonym time = int

text \<open>The struct \<^verbatim>\<open>dbRepo\<close>, one row of table \<^verbatim>\<open>repo\<close>.\<close>

record dbRepo =
  URI :: string
  Origin :: string
  Name :: string
  Description :: string
  VCS :: string
  HTTPCloneURL :: string
  SSHCloneURL :: string
  HomepageURL :: string
  DefaultBranch :: string
  Language :: string
  Blocked :: bool
  Deprecated :: bool
  Fork :: bool
  Mirror :: bool
  Private :: bool
  CreatedAt :: time
  UpdatedAt :: "time option"
  PushedAt :: "time option"

text \<open>
  The struct \<^verbatim>\<open>sourcegraph.Repo\<close>, with the fields repos.go reads and writes. Its field
  names are those of \<^verbatim>\<open>dbRepo\<close>, here with the suffix \<open>_repo\<close>.
\<close>

record Repo =
  URI_repo :: string
  Origin_repo :: string
  Name_repo :: string
  Description_repo :: string
  VCS_repo :: string
  HTTPCloneURL_repo :: string
  SSHCloneURL_repo :: string
  HomepageURL_repo :: string
  DefaultBranch_repo :: string
  Language_repo :: string
  Blocked_repo :: bool
  Deprecated_repo :: bool
  Fork_repo :: bool
  Mirror_repo :: bool
  Private_repo :: bool
  CreatedAt_repo :: "time option"
  UpdatedAt_repo :: "time option"
  PushedAt_repo :: "time option"

text \<open>
  The struct \<^verbatim>\<open>sourcegraph.RepoListOptions\<close>, with the fields repos.go reads. The field
  \<^verbatim>\<open>Name\<close> is \<open>Name_opt\<close> here. The methods \<^verbatim>\<open>PerPageOrDefault\<close> and \<^verbatim>\<open>Offset\<close> of the
  embedded \<^verbatim>\<open>ListOptions\<close> are defined outside repos.go; the two fields of those names hold
  the values they return for the options at hand.
\<close>

record RepoListOptions =
  Query :: string
  URIs :: "string list"
  Name_opt :: string
  Type :: string
  NoFork :: bool
  Owner :: string
  Sort :: string
  Direction :: string
  PerPageOrDefault :: int
  Offset :: int

text \<open>
  The struct \<^verbatim>\<open>store.RepoUpdate\<close>: \<open>Repo_op\<close> is \<^verbatim>\<open>op.Repo.URI\<close>, the other fields carry the
  suffix \<open>_op\<close>.
\<close>

record RepoUpdate =
  Repo_op :: string
  Description_op :: string
  Language_op :: string
  UpdatedAt_op :: "time option"
  PushedAt_op :: "time option"

text \<open>
  The errors repos.go returns: the gRPC status \<^verbatim>\<open>codes.InvalidArgument\<close>, the sentinel \<^verbatim>\<open>errOptionsSpecifyEmptyResult\<close>, the two errors of package \<^verbatim>\<open>store\<close> that
  Create returns, \<^verbatim>\<open>store.RepoNotFoundError\<close> with its repository, and a failure of
  the database handle, which is passed on as it is. \<open>InvalidArgument f\<close> is the status
  that \<^verbatim>\<open>grpc.Errorf(codes.InvalidArgument, f)\<close> returns: \<open>f\<close> is the format string that
  repos.go passes, and the message of the status is what \<^verbatim>\<open>fmt\<close> prints for that format
  with no operands (the format itself when it has no \<^verbatim>\<open>%\<close>).
\<close>

datatype error =
    InvalidArgument string
  | errOptionsSpecifyEmptyResult
  | ErrRepoMirrorOnly
  | ErrRepoNeedsCloneURL
  | RepoNotFoundError string
  | ExecutionFailure

text \<open>A value of the argument list of a statement (\<^verbatim>\<open>[]interface{}\<close>).\<close>

datatype sqlarg = AString string | AInt int | ATime time

section \<open>Record mapper\<close>

definition toRepo :: "dbRepo \<Rightarrow> Repo" where
  "toRepo r =
     \<lparr> URI_repo = URI r, Origin_repo = Origin r, Name_repo = Name r,
       Description_repo = Description r, VCS_repo = VCS r,
       HTTPCloneURL_repo = HTTPCloneURL r, SSHCloneURL_repo = SSHCloneURL r,
       HomepageURL_repo = HomepageURL r, DefaultBranch_repo = DefaultBranch r,
       Language_repo = Language r, Blocked_repo = Blocked r, Deprecated_repo = Deprecated r,
       Fork_repo = Fork r, Mirror_repo = Mirror r, Private_repo = Private r,
       CreatedAt_repo = Some (CreatedAt r), UpdatedAt_repo = UpdatedAt r,
       PushedAt_repo = PushedAt r \<rparr>"

text \<open>
  \<^verbatim>\<open>fromRepo\<close> is called on a zero \<^verbatim>\<open>dbRepo\<close> (\<^verbatim>\<open>var r dbRepo\<close> in Create): a nil
  \<^verbatim>\<open>CreatedAt\<close> leaves the zero time, a nil \<^verbatim>\<open>UpdatedAt\<close> or \<^verbatim>\<open>PushedAt\<close> leaves nil.
\<close>

definition fromRepo :: "Repo \<Rightarrow> dbRepo" where
  "fromRepo r2 =
     \<lparr> URI = URI_repo r2, Origin = Origin_repo r2, Name = Name_repo r2,
       Description = Description_repo r2, VCS = VCS_repo r2,
       HTTPCloneURL = HTTPCloneURL_repo r2, SSHCloneURL = SSHCloneURL_repo r2,
       HomepageURL = HomepageURL_repo r2, DefaultBranch = DefaultBranch_repo r2,
       Language = Language_repo r2, Blocked = Blocked_repo r2, Deprecated = Deprecated_repo r2,
       Fork = Fork_repo r2, Mirror = Mirror_repo r2, Private = Private_repo r2,
       CreatedAt = (case CreatedAt_repo r2 of None \<Rightarrow> 0 | Some t \<Rightarrow> t),
       UpdatedAt = UpdatedAt_repo r2, PushedAt = PushedAt_repo r2 \<rparr>"

definition toRepos :: "dbRepo list \<Rightarrow> Repo list" where
  "toRepos rs = map toRepo rs"

section \<open>Query builder: the text that listSQL builds\<close>

text \<open>
  The closure \<^verbatim>\<open>arg\<close>: the placeholder of the next position, and the argument list with
  the value appended.
\<close>

definition arg :: "sqlarg list \<Rightarrow> sqlarg \<Rightarrow> string \<times> sqlarg list" where
  "arg args a = (BindVar (length args), args @ [a])"

text \<open>
  The loop \<^verbatim>\<open>for i, uri := range opt.URIs { uriBindVars[i] = arg(uri) }\<close>: the placeholders
  in order, and the argument list with every element appended.
\<close>

fun bindURIs :: "sqlarg list \<Rightarrow> string list \<Rightarrow> string list \<times> sqlarg list" where
  "bindURIs args [] = ([], args)"
| "bindURIs args (uri # uris) =
     (let (v, args1) = arg args (AString uri); (vs, args2) = bindURIs args1 uris
      in (v # vs, args2))"

text \<open>
  The slice \<^verbatim>\<open>opt.URIs\<close> after the workaround of lines 229 to 232: a single element that
  contains a comma is replaced by its pieces between the commas. (The source stores the
  pieces back into the caller's options.)
\<close>

definition listURIs :: "RepoListOptions \<Rightarrow> string list" where
  "listURIs opt =
     (if length (URIs opt) = 1 \<and> Contains (URIs opt ! 0) '','' then Split (URIs opt ! 0) CHR '',''
      else URIs opt)"

text \<open>
  Lines 211 and 212, and the second lower-casing of line 244: the probe \<^verbatim>\<open>uriQuery\<close>.
\<close>

definition queryTerms :: "RepoListOptions \<Rightarrow> string list" where
  "queryTerms opt = Fields (Query opt)"

definition uriQuery :: "(string \<Rightarrow> string) \<Rightarrow> RepoListOptions \<Rightarrow> string" where
  "uriQuery ToLower opt =
     (let uriQuery0 = ToLower (Join (queryTerms opt) ''/'')
      in if length (queryTerms opt) \<ge> 1 then ToLower uriQuery0 else uriQuery0)"

text \<open>
  Lines 221 to 246 of the WHERE block: the conditions collected in \<^verbatim>\<open>conds\<close> before the
  switch on \<^verbatim>\<open>opt.Type\<close>, and the argument list at that point.
\<close>

definition listSQL_conds :: "(string \<Rightarrow> string) \<Rightarrow> RepoListOptions \<Rightarrow> string list \<times> sqlarg list" where
  "listSQL_conds ToLower opt =
     (let args0 = [];
          conds1 = [''(NOT blocked)''];
          conds2 = (if NoFork opt then conds1 @ [''(NOT fork)''] else conds1);
          (conds3, args3) =
            (if length (URIs opt) > 0
             then let (uriBindVars, args') = bindURIs args0 (listURIs opt)
                  in (conds2 @ [''uri IN ('' @ Join uriBindVars '','' @ '')''], args')
             else (conds2, args0));
          (conds4, args4) =
            (if Name_opt opt \<noteq> []
             then let (v, args') = arg args3 (AString (ToLower (Name_opt opt)))
                  in (conds3 @ [''lower(name)='' @ v], args')
             else (conds3, args3))
      in if length (queryTerms opt) \<ge> 1
         then let (v1, a1) = arg args4 (AString (''/'' @ uriQuery ToLower opt @ ''%''));
                  (v2, a2) = arg a1 (AString (uriQuery ToLower opt @ ''%/%''));
                  (v3, a3) = arg a2 (AString (uriQuery ToLower opt @ ''%''));
                  (v4, a4) = arg a3 (AString (uriQuery ToLower opt))
              in (conds4 @ [''lower(uri) LIKE '' @ v1 @ '' OR lower(uri) LIKE '' @ v2 @
                            '' OR lower(name) LIKE '' @ v3 @ '' OR lower(uri) = '' @ v4], a4)
         else (conds4, args4))"

text \<open>
  Lines 247 to 264: the switch on \<^verbatim>\<open>opt.Type\<close>, the check of \<^verbatim>\<open>opt.Owner\<close>, and the
  conditions joined into \<^verbatim>\<open>whereSQL\<close>.
\<close>

definition listSQL_where :: "(string \<Rightarrow> string) \<Rightarrow> RepoListOptions \<Rightarrow> error + (string \<times> sqlarg list)" where
  "listSQL_where ToLower opt =
     (let (conds, args) = listSQL_conds ToLower opt
      in if Type opt \<noteq> ''private'' \<and> Type opt \<noteq> ''public'' \<and> Type opt \<noteq> [] \<and> Type opt \<noteq> ''all''
         then Inl (InvalidArgument ''invalid state'')
         else let conds' = (if Type opt = ''private'' then conds @ [''private'']
                            else if Type opt = ''public'' then conds @ [''NOT private'']
                            else conds)
              in if Owner opt \<noteq> [] then Inl errOptionsSpecifyEmptyResult
                 else if conds' \<noteq> [] then Inr (''('' @ Join conds' '') AND ('' @ '')'', args)
                 else Inr (''true'', args))"

text \<open>The map \<^verbatim>\<open>sortKeyToCol\<close>.\<close>

definition sortKeyToCol :: "string \<rightharpoonup> string" where
  "sortKeyToCol =
     [''uri'' \<mapsto> ''repo.uri'', ''path'' \<mapsto> ''repo.uri'', ''name'' \<mapsto> ''repo.name'',
      ''created'' \<mapsto> ''repo.created_at'', ''updated'' \<mapsto> ''repo.updated_at'',
      ''pushed'' \<mapsto> ''repo.pushed_at'']"

text \<open>
  Lines 268 to 296: \<^verbatim>\<open>orderBySQL\<close>, from the argument list that the WHERE block leaves.
\<close>

definition listSQL_orderBy ::
    "(string \<Rightarrow> string) \<Rightarrow> RepoListOptions \<Rightarrow> sqlarg list \<Rightarrow> error + (string \<times> sqlarg list)" where
  "listSQL_orderBy ToLower opt args =
     (let (orderBySQL, args1) =
            (if uriQuery ToLower opt \<noteq> []
             then let (v, args') = arg args (AString (ToLower (Base (uriQuery ToLower opt))))
                  in (''(lower(name) = '' @ v @ '') DESC, '', args')
             else ([], args));
          sort = (if Sort opt = [] then ''uri'' else Sort opt)
      in case sortKeyToCol sort of
           None \<Rightarrow> Inl (InvalidArgument (''invalid sort: '' @ sort))
         | Some sortCol \<Rightarrow>
             (let direction = (if Direction opt = [] then ''asc'' else Direction opt)
              in if direction \<noteq> ''asc'' \<and> direction \<noteq> ''desc''
                 then Inl (InvalidArgument (''invalid direction: '' @ direction))
                 else Inr (orderBySQL @ sortCol @ '' '' @ direction @ '' NULLS LAST'', args1)))"

text \<open>The function \<^verbatim>\<open>listSQL\<close>.\<close>

definition listSQL :: "(string \<Rightarrow> string) \<Rightarrow> RepoListOptions \<Rightarrow> error + (string \<times> sqlarg list)" where
  "listSQL ToLower opt =
     (let selectSQL = ''repo.*''; fromSQL = ''repo''
      in case listSQL_where ToLower opt of
           Inl err \<Rightarrow> Inl err
         | Inr (whereSQL, args) \<Rightarrow>
             (case listSQL_orderBy ToLower opt args of
                Inl err \<Rightarrow> Inl err
              | Inr (orderBySQL, args') \<Rightarrow>
                  Inr (''SELECT '' @ selectSQL @ '' FROM '' @ fromSQL @ '' WHERE '' @ whereSQL @
                       '' ORDER BY '' @ orderBySQL, args')))"

section \<open>Query builder: the statement as a structure\<close>

text \<open>
  The statements that \<^verbatim>\<open>listSQL\<close> and \<^verbatim>\<open>List\<close> can build, as a structure: the conditions
  of the WHERE clause (joined by AND, each in parentheses), the optional first term of
  ORDER BY, the sort column and direction, and the optional LIMIT and OFFSET. A number
  is an index into the argument list; it is printed as the placeholder \<open>BindVar\<close> of it.
\<close>

datatype cond =
    CNotBlocked
  | CNotFork
  | CUriIn "nat list"
  | CLowerNameEq nat
  | CQuery nat nat nat nat
  | CPrivate
  | CNotPrivate

datatype sortcol = ColUri | ColName | ColCreatedAt | ColUpdatedAt | ColPushedAt

datatype sortdir = Asc | Desc

record stmt =
  conds :: "cond list"
  tiebreak :: "nat option"
  sortCol :: sortcol
  sortDir :: sortdir
  limitOffset :: "(nat \<times> nat) option"

fun render_cond :: "cond \<Rightarrow> string" where
  "render_cond CNotBlocked = ''(NOT blocked)''"
| "render_cond CNotFork = ''(NOT fork)''"
| "render_cond (CUriIn ks) = ''uri IN ('' @ Join (map BindVar ks) '','' @ '')''"
| "render_cond (CLowerNameEq k) = ''lower(name)='' @ BindVar k"
| "render_cond (CQuery k1 k2 k3 k4) =
     ''lower(uri) LIKE '' @ BindVar k1 @ '' OR lower(uri) LIKE '' @ BindVar k2 @
     '' OR lower(name) LIKE '' @ BindVar k3 @ '' OR lower(uri) = '' @ BindVar k4"
| "render_cond CPrivate = ''private''"
| "render_cond CNotPrivate = ''NOT private''"

fun render_col :: "sortcol \<Rightarrow> string" where
  "render_col ColUri = ''repo.uri''"
| "render_col ColName = ''repo.name''"
| "render_col ColCreatedAt = ''repo.created_at''"
| "render_col ColUpdatedAt = ''repo.updated_at''"
| "render_col ColPushedAt = ''repo.pushed_at''"

fun render_dir :: "sortdir \<Rightarrow> string" where
  "render_dir Asc = ''asc''"
| "render_dir Desc = ''desc''"

definition render_where :: "cond list \<Rightarrow> string" where
  "render_where cs =
     (if cs \<noteq> [] then ''('' @ Join (map render_cond cs) '') AND ('' @ '')'' else ''true'')"

definition render_orderBy :: "nat option \<Rightarrow> sortcol \<Rightarrow> sortdir \<Rightarrow> string" where
  "render_orderBy tb col dir =
     (case tb of None \<Rightarrow> [] | Some k \<Rightarrow> ''(lower(name) = '' @ BindVar k @ '') DESC, '') @
     render_col col @ '' '' @ render_dir dir @ '' NULLS LAST''"

definition render_stmt :: "stmt \<Rightarrow> string" where
  "render_stmt q =
     ''SELECT repo.* FROM repo WHERE '' @ render_where (conds q) @
     '' ORDER BY '' @ render_orderBy (tiebreak q) (sortCol q) (sortDir q) @
     (case limitOffset q of
        None \<Rightarrow> []
      | Some (l, off) \<Rightarrow> '' LIMIT '' @ BindVar l @ '' OFFSET '' @ BindVar off)"

text \<open>
  The structure of what \<^verbatim>\<open>listSQL\<close> builds, block by block as above. Theorem
  \<open>listSQL_render\<close> below proves that the text of \<open>listSQL\<close> is the printed form of it.
\<close>

definition listStmt_conds :: "(string \<Rightarrow> string) \<Rightarrow> RepoListOptions \<Rightarrow> cond list \<times> sqlarg list" where
  "listStmt_conds ToLower opt =
     (let cs2 = CNotBlocked # (if NoFork opt then [CNotFork] else []);
          (cs3, args3) =
            (if length (URIs opt) > 0
             then (cs2 @ [CUriIn [0 ..< length (listURIs opt)]], map AString (listURIs opt))
             else (cs2, []));
          (cs4, args4) =
            (if Name_opt opt \<noteq> []
             then (cs3 @ [CLowerNameEq (length args3)], args3 @ [AString (ToLower (Name_opt opt))])
             else (cs3, args3))
      in if length (queryTerms opt) \<ge> 1
         then (cs4 @ [CQuery (length args4) (length args4 + 1) (length args4 + 2) (length args4 + 3)],
               args4 @ [AString (''/'' @ uriQuery ToLower opt @ ''%''), AString (uriQuery ToLower opt @ ''%/%''),
                        AString (uriQuery ToLower opt @ ''%''), AString (uriQuery ToLower opt)])
         else (cs4, args4))"

definition listStmt_where :: "(string \<Rightarrow> string) \<Rightarrow> RepoListOptions \<Rightarrow> error + (cond list \<times> sqlarg list)" where
  "listStmt_where ToLower opt =
     (let (cs, args) = listStmt_conds ToLower opt
      in if Type opt \<noteq> ''private'' \<and> Type opt \<noteq> ''public'' \<and> Type opt \<noteq> [] \<and> Type opt \<noteq> ''all''
         then Inl (InvalidArgument ''invalid state'')
         else if Owner opt \<noteq> [] then Inl errOptionsSpecifyEmptyResult
         else Inr (if Type opt = ''private'' then cs @ [CPrivate]
                   else if Type opt = ''public'' then cs @ [CNotPrivate]
                   else cs, args))"

definition sortKeyCol :: "string \<rightharpoonup> sortcol" where
  "sortKeyCol =
     [''uri'' \<mapsto> ColUri, ''path'' \<mapsto> ColUri, ''name'' \<mapsto> ColName,
      ''created'' \<mapsto> ColCreatedAt, ''updated'' \<mapsto> ColUpdatedAt, ''pushed'' \<mapsto> ColPushedAt]"

definition listStmt_orderBy ::
    "(string \<Rightarrow> string) \<Rightarrow> RepoListOptions \<Rightarrow> sqlarg list \<Rightarrow> error + ((nat option \<times> sortcol \<times> sortdir) \<times> sqlarg list)" where
  "listStmt_orderBy ToLower opt args =
     (let (tb, args1) =
            (if uriQuery ToLower opt \<noteq> []
             then (Some (length args), args @ [AString (ToLower (Base (uriQuery ToLower opt)))])
             else (None, args));
          sort = (if Sort opt = [] then ''uri'' else Sort opt)
      in case sortKeyCol sort of
           None \<Rightarrow> Inl (InvalidArgument (''invalid sort: '' @ sort))
         | Some col \<Rightarrow>
             (let direction = (if Direction opt = [] then ''asc'' else Direction opt)
              in if direction = ''asc'' then Inr ((tb, col, Asc), args1)
                 else if direction = ''desc'' then Inr ((tb, col, Desc), args1)
                 else Inl (InvalidArgument (''invalid direction: '' @ direction))))"

definition listStmt :: "(string \<Rightarrow> string) \<Rightarrow> RepoListOptions \<Rightarrow> error + (stmt \<times> sqlarg list)" where
  "listStmt ToLower opt =
     (case listStmt_where ToLower opt of
        Inl err \<Rightarrow> Inl err
      | Inr (cs, args) \<Rightarrow>
          (case listStmt_orderBy ToLower opt args of
             Inl err \<Rightarrow> Inl err
           | Inr ((tb, col, dir), args') \<Rightarrow>
               Inr (\<lparr> conds = cs, tiebreak = tb, sortCol = col, sortDir = dir,
                      limitOffset = None \<rparr>, args')))"

section \<open>The database: the statements of List evaluated on a table\<close>

text \<open>
  The handle \<^verbatim>\<open>dbh(ctx)\<close> and the database behind it are outside repos.go. The model of
  them is a table, the list of the rows of \<^verbatim>\<open>repo\<close>, and an evaluation of a statement
  on that list. Column \<^verbatim>\<open>uri\<close> has the type \<^verbatim>\<open>citext\<close> (line 23), and the order of text
  depends on the collation of the database, so the equality of \<^verbatim>\<open>uri\<close> and the two orders
  that ORDER BY can use on text are parameters of the evaluation.
\<close>

record dbsem =
  uri_eq :: "string \<Rightarrow> string \<Rightarrow> bool"
  uri_le :: "string \<Rightarrow> string \<Rightarrow> bool"
  text_le :: "string \<Rightarrow> string \<Rightarrow> bool"
  sql_lower :: "string \<Rightarrow> string"

text \<open>
  \<open>like s p\<close> is the SQL predicate \<^verbatim>\<open>s LIKE p\<close>: in the pattern \<^verbatim>\<open>%\<close> stands for any
  sequence of characters, \<^verbatim>\<open>_\<close> for any one character, and a backslash makes the character
  after it stand for itself. The whole of \<open>s\<close> must match. (A pattern that ends in a
  single backslash is rejected by the database; here it matches nothing. Every pattern
  that \<open>listSQL\<close> builds ends in \<^verbatim>\<open>%\<close>.)
\<close>

fun like :: "string \<Rightarrow> string \<Rightarrow> bool" where
  "like [] [] = True"
| "like (c # cs) [] = False"
| "like [] (p # ps) = (p = CHR ''%'' \<and> like [] ps)"
| "like (c # cs) (p # ps) =
     (if p = CHR ''%'' then like (c # cs) ps \<or> like cs (p # ps)
      else if p = CHR ''_'' then like cs ps
      else if p = CHR 0x5C then (case ps of [] \<Rightarrow> False | q # qs \<Rightarrow> c = q \<and> like cs qs)
      else c = p \<and> like cs ps)"

definition isStr :: "sqlarg list \<Rightarrow> nat \<Rightarrow> bool" where
  "isStr args k = (k < length args \<and> (case args ! k of AString s \<Rightarrow> True | _ \<Rightarrow> False))"

definition isInt :: "sqlarg list \<Rightarrow> nat \<Rightarrow> bool" where
  "isInt args k = (k < length args \<and> (case args ! k of AInt i \<Rightarrow> True | _ \<Rightarrow> False))"

definition argStr :: "sqlarg list \<Rightarrow> nat \<Rightarrow> string" where
  "argStr args k = (case args ! k of AString s \<Rightarrow> s | _ \<Rightarrow> [])"

definition argInt :: "sqlarg list \<Rightarrow> nat \<Rightarrow> int" where
  "argInt args k = (case args ! k of AInt i \<Rightarrow> i | _ \<Rightarrow> 0)"

text \<open>
  A statement can be evaluated when each of its placeholders has an argument of the type
  its place needs, and no list of IN is empty.
\<close>

fun cond_ok :: "sqlarg list \<Rightarrow> cond \<Rightarrow> bool" where
  "cond_ok args (CUriIn ks) = (ks \<noteq> [] \<and> list_all (isStr args) ks)"
| "cond_ok args (CLowerNameEq k) = isStr args k"
| "cond_ok args (CQuery k1 k2 k3 k4) = (isStr args k1 \<and> isStr args k2 \<and> isStr args k3 \<and> isStr args k4)"
| "cond_ok args c = True"

definition stmt_ok :: "stmt \<Rightarrow> sqlarg list \<Rightarrow> bool" where
  "stmt_ok q args =
     (list_all (cond_ok args) (conds q) \<and>
      (case tiebreak q of None \<Rightarrow> True | Some k \<Rightarrow> isStr args k) \<and>
      (case limitOffset q of None \<Rightarrow> True | Some (l, off) \<Rightarrow> isInt args l \<and> isInt args off))"

text \<open>One condition on one row. SQL \<^verbatim>\<open>lower\<close> is \<open>sql_lower\<close>.\<close>

fun eval_cond :: "dbsem \<Rightarrow> sqlarg list \<Rightarrow> dbRepo \<Rightarrow> cond \<Rightarrow> bool" where
  "eval_cond sem args r CNotBlocked = (\<not> Blocked r)"
| "eval_cond sem args r CNotFork = (\<not> Fork r)"
| "eval_cond sem args r (CUriIn ks) = list_ex (\<lambda>k. uri_eq sem (URI r) (argStr args k)) ks"
| "eval_cond sem args r (CLowerNameEq k) = (sql_lower sem (Name r) = argStr args k)"
| "eval_cond sem args r (CQuery k1 k2 k3 k4) =
     (like (sql_lower sem (URI r)) (argStr args k1) \<or>
      like (sql_lower sem (URI r)) (argStr args k2) \<or>
      like (sql_lower sem (Name r)) (argStr args k3) \<or> sql_lower sem (URI r) = argStr args k4)"
| "eval_cond sem args r CPrivate = Private r"
| "eval_cond sem args r CNotPrivate = (\<not> Private r)"

definition eval_where :: "dbsem \<Rightarrow> sqlarg list \<Rightarrow> cond list \<Rightarrow> dbRepo \<Rightarrow> bool" where
  "eval_where sem args cs r = list_all (eval_cond sem args r) cs"

text \<open>
  ORDER BY: \<open>opt_le\<close> compares two values of the sort column in the direction asked for,
  a NULL after every other value in both directions (NULLS LAST).
\<close>

fun opt_le :: "sortdir \<Rightarrow> ('a \<Rightarrow> 'a \<Rightarrow> bool) \<Rightarrow> 'a option \<Rightarrow> 'a option \<Rightarrow> bool" where
  "opt_le dir le (Some a) (Some b) = (case dir of Asc \<Rightarrow> le a b | Desc \<Rightarrow> le b a)"
| "opt_le dir le (Some a) None = True"
| "opt_le dir le None (Some b) = False"
| "opt_le dir le None None = True"

fun col_le :: "dbsem \<Rightarrow> sortcol \<Rightarrow> sortdir \<Rightarrow> dbRepo \<Rightarrow> dbRepo \<Rightarrow> bool" where
  "col_le sem ColUri dir a b = opt_le dir (uri_le sem) (Some (URI a)) (Some (URI b))"
| "col_le sem ColName dir a b = opt_le dir (text_le sem) (Some (Name a)) (Some (Name b))"
| "col_le sem ColCreatedAt dir a b = opt_le dir (\<le>) (Some (CreatedAt a)) (Some (CreatedAt b))"
| "col_le sem ColUpdatedAt dir a b = opt_le dir (\<le>) (UpdatedAt a) (UpdatedAt b)"
| "col_le sem ColPushedAt dir a b = opt_le dir (\<le>) (PushedAt a) (PushedAt b)"

text \<open>
  The first term of ORDER BY, \<^verbatim>\<open>(lower(name) = $k) DESC\<close>, puts the rows on which the
  comparison is true before the rows on which it is false; rows that agree on it are
  ordered by the sort column.
\<close>

definition exactName :: "dbsem \<Rightarrow> sqlarg list \<Rightarrow> nat \<Rightarrow> dbRepo \<Rightarrow> bool" where
  "exactName sem args k r = (sql_lower sem (Name r) = argStr args k)"

definition row_le :: "dbsem \<Rightarrow> sqlarg list \<Rightarrow> stmt \<Rightarrow> dbRepo \<Rightarrow> dbRepo \<Rightarrow> bool" where
  "row_le sem args q a b =
     (case tiebreak q of
        None \<Rightarrow> col_le sem (sortCol q) (sortDir q) a b
      | Some k \<Rightarrow>
          (if exactName sem args k a = exactName sem args k b then col_le sem (sortCol q) (sortDir q) a b
           else exactName sem args k a))"

text \<open>
  Sorting by insertion. SQL leaves the order of rows that compare equal open; here they
  keep the order of the table.
\<close>

fun insertBy :: "('a \<Rightarrow> 'a \<Rightarrow> bool) \<Rightarrow> 'a \<Rightarrow> 'a list \<Rightarrow> 'a list" where
  "insertBy le x [] = [x]"
| "insertBy le x (y # ys) = (if le x y then x # y # ys else y # insertBy le x ys)"

fun sortBy :: "('a \<Rightarrow> 'a \<Rightarrow> bool) \<Rightarrow> 'a list \<Rightarrow> 'a list" where
  "sortBy le [] = []"
| "sortBy le (x # xs) = insertBy le x (sortBy le xs)"

text \<open>
  \<^verbatim>\<open>dbh(ctx).Select\<close> on a statement of the structure above: the rows that satisfy every
  condition, ordered, and cut by LIMIT and OFFSET. The database rejects a negative LIMIT
  or OFFSET.
\<close>

definition pg_select :: "dbsem \<Rightarrow> dbRepo list \<Rightarrow> stmt \<Rightarrow> sqlarg list \<Rightarrow> error + dbRepo list" where
  "pg_select sem db q args =
     (if \<not> stmt_ok q args then Inl ExecutionFailure
      else let rows = sortBy (row_le sem args q) (filter (eval_where sem args (conds q)) db)
           in case limitOffset q of
                None \<Rightarrow> Inr rows
              | Some (l, off) \<Rightarrow>
                  (if argInt args l < 0 \<or> argInt args off < 0 then Inl ExecutionFailure
                   else Inr (take (nat (argInt args l)) (drop (nat (argInt args off)) rows))))"

section \<open>Store operations\<close>

text \<open>The method \<^verbatim>\<open>query\<close>.\<close>

definition query :: "dbsem \<Rightarrow> dbRepo list \<Rightarrow> stmt \<Rightarrow> sqlarg list \<Rightarrow> error + Repo list" where
  "query sem db q args =
     (case pg_select sem db q args of Inl err \<Rightarrow> Inl err | Inr repos \<Rightarrow> Inr (toRepos repos))"

text \<open>
  The text and the argument list that \<^verbatim>\<open>List\<close> hands to \<^verbatim>\<open>query\<close> (lines 174 to 189), when
  \<^verbatim>\<open>listSQL\<close> returns no error.
\<close>

definition List_sql :: "(string \<Rightarrow> string) \<Rightarrow> RepoListOptions \<Rightarrow> error + (string \<times> sqlarg list)" where
  "List_sql ToLower opt =
     (case listSQL ToLower opt of
        Inl err \<Rightarrow> Inl err
      | Inr (sql, args) \<Rightarrow>
          (let (v1, args1) = arg args (AInt (PerPageOrDefault opt));
               (v2, args2) = arg args1 (AInt (Offset opt))
           in Inr (sql @ '' LIMIT '' @ v1 @ '' OFFSET '' @ v2, args2)))"

definition List_stmt :: "(string \<Rightarrow> string) \<Rightarrow> RepoListOptions \<Rightarrow> error + (stmt \<times> sqlarg list)" where
  "List_stmt ToLower opt =
     (case listStmt ToLower opt of
        Inl err \<Rightarrow> Inl err
      | Inr (q, args) \<Rightarrow>
          Inr (q\<lparr>limitOffset := Some (length args, length args + 1)\<rparr>,
               args @ [AInt (PerPageOrDefault opt), AInt (Offset opt)]))"

text \<open>
  The method \<^verbatim>\<open>List\<close>, on options that are not nil (the source replaces nil options by the
  zero options first). The sentinel \<^verbatim>\<open>errOptionsSpecifyEmptyResult\<close> becomes the empty
  result with no error; the statement is run on the table \<open>db\<close>.
\<close>

definition List :: "(string \<Rightarrow> string) \<Rightarrow> dbsem \<Rightarrow> dbRepo list \<Rightarrow> RepoListOptions \<Rightarrow> error + Repo list" where
  "List ToLower sem db opt =
     (case List_stmt ToLower opt of
        Inl err \<Rightarrow> (if err = errOptionsSpecifyEmptyResult then Inr [] else Inl err)
      | Inr (q, args) \<Rightarrow> query sem db q args)"

text \<open>
  \<^verbatim>\<open>Create\<close> and \<^verbatim>\<open>Update\<close> run their statements through the handle. The handle is an
  argument of the model: \<open>ins\<close> is \<^verbatim>\<open>dbh(ctx).Insert\<close> and \<open>ex\<close> is \<^verbatim>\<open>dbh(ctx).Exec\<close>, each
  a function from the state behind the handle to an optional error and the state after
  the call. What a method does with the handle is then read off for every handle.
\<close>

text \<open>
  The method \<^verbatim>\<open>Create\<close>. (The source stores the default branch into the caller's record
  as well.)
\<close>

definition Create ::
    "('h \<Rightarrow> dbRepo \<Rightarrow> error option \<times> 'h) \<Rightarrow> 'h \<Rightarrow> Repo \<Rightarrow> (error + Repo) \<times> 'h" where
  "Create ins h newRepo =
     (if \<not> Mirror_repo newRepo then (Inl ErrRepoMirrorOnly, h)
      else if HTTPCloneURL_repo newRepo = [] \<and> SSHCloneURL_repo newRepo = []
      then (Inl ErrRepoNeedsCloneURL, h)
      else let newRepo' = (if DefaultBranch_repo newRepo = []
                           then newRepo\<lparr>DefaultBranch_repo := ''master''\<rparr> else newRepo);
               r = fromRepo newRepo'
           in case ins h r of
                (Some err, h') \<Rightarrow> (Inl err, h')
              | (None, h') \<Rightarrow> (Inr (toRepo r), h'))"

text \<open>The method \<^verbatim>\<open>Update\<close>.\<close>

definition Update ::
    "('h \<Rightarrow> string \<Rightarrow> sqlarg list \<Rightarrow> error option \<times> 'h) \<Rightarrow> 'h \<Rightarrow> RepoUpdate \<Rightarrow> error option \<times> 'h" where
  \<open>Update ex h op =
     (let (err1, h1) =
            (if Description_op op \<noteq> []
             then ex h ''UPDATE repo SET "description"=$1 WHERE uri=$2''
                    [AString (TrimSpace (Description_op op)), AString (Repo_op op)]
             else (None, h))
      in if err1 \<noteq> None then (err1, h1)
         else let (err2, h2) =
                    (if Language_op op \<noteq> []
                     then ex h1 ''UPDATE repo SET "language"=$1 WHERE uri=$2''
                            [AString (TrimSpace (Language_op op)), AString (Repo_op op)]
                     else (None, h1))
              in if err2 \<noteq> None then (err2, h2)
                 else let (err3, h3) =
                            (case UpdatedAt_op op of
                               Some t \<Rightarrow> ex h2 ''UPDATE repo SET "updated_at"=$1 WHERE uri=$2''
                                          [ATime t, AString (Repo_op op)]
                             | None \<Rightarrow> (None, h2))
                      in if err3 \<noteq> None then (err3, h3)
                         else (case PushedAt_op op of
                                 Some t \<Rightarrow> ex h3 ''UPDATE repo SET "pushed_at"=$1 WHERE uri=$2''
                                            [ATime t, AString (Repo_op op)]
                               | None \<Rightarrow> (None, h3)))\<close>

text \<open>
  Two handles. The first only records the statements it is given, in order, and never
  fails. The second is the table of the model above: an insert fails when a row with
  the same \<^verbatim>\<open>uri\<close> (the key of the table) exists, and each of the four UPDATE statements
  of \<^verbatim>\<open>Update\<close> writes its one column in the rows whose \<^verbatim>\<open>uri\<close> equals the second argument.
\<close>

definition log_Exec ::
    "(string \<times> sqlarg list) list \<Rightarrow> string \<Rightarrow> sqlarg list \<Rightarrow> error option \<times> (string \<times> sqlarg list) list" where
  "log_Exec h sql args = (None, h @ [(sql, args)])"

definition log_Insert :: "dbRepo list \<Rightarrow> dbRepo \<Rightarrow> error option \<times> dbRepo list" where
  "log_Insert h r = (None, h @ [r])"

definition pg_Insert :: "dbsem \<Rightarrow> dbRepo list \<Rightarrow> dbRepo \<Rightarrow> error option \<times> dbRepo list" where
  "pg_Insert sem db r =
     (if list_ex (\<lambda>x. uri_eq sem (URI x) (URI r)) db then (Some ExecutionFailure, db)
      else (None, db @ [r]))"

definition setWhere :: "dbsem \<Rightarrow> string \<Rightarrow> (dbRepo \<Rightarrow> dbRepo) \<Rightarrow> dbRepo list \<Rightarrow> dbRepo list" where
  "setWhere sem u f db = map (\<lambda>r. if uri_eq sem (URI r) u then f r else r) db"

definition pg_Exec ::
    "dbsem \<Rightarrow> dbRepo list \<Rightarrow> string \<Rightarrow> sqlarg list \<Rightarrow> error option \<times> dbRepo list" where
  \<open>pg_Exec sem db sql args =
     (if sql = ''UPDATE repo SET "description"=$1 WHERE uri=$2''
      then (case args of
              [AString v, AString u] \<Rightarrow> (None, setWhere sem u (\<lambda>r. r\<lparr>Description := v\<rparr>) db)
            | _ \<Rightarrow> (Some ExecutionFailure, db))
      else if sql = ''UPDATE repo SET "language"=$1 WHERE uri=$2''
      then (case args of
              [AString v, AString u] \<Rightarrow> (None, setWhere sem u (\<lambda>r. r\<lparr>Language := v\<rparr>) db)
            | _ \<Rightarrow> (Some ExecutionFailure, db))
      else if sql = ''UPDATE repo SET "updated_at"=$1 WHERE uri=$2''
      then (case args of
              [ATime t, AString u] \<Rightarrow> (None, setWhere sem u (\<lambda>r. r\<lparr>UpdatedAt := Some t\<rparr>) db)
            | _ \<Rightarrow> (Some ExecutionFailure, db))
      else if sql = ''UPDATE repo SET "pushed_at"=$1 WHERE uri=$2''
      then (case args of
              [ATime t, AString u] \<Rightarrow> (None, setWhere sem u (\<lambda>r. r\<lparr>PushedAt := Some t\<rparr>) db)
            | _ \<Rightarrow> (Some ExecutionFailure, db))
      else (Some ExecutionFailure, db))\<close>

section \<open>Values for the examples\<close>

text \<open>
  The zero options, with the page size and offset that the two methods of
  \<^verbatim>\<open>ListOptions\<close> are taken to return for them; a row of a mirror that is neither blocked
  nor a fork nor private; the \<^verbatim>\<open>sourcegraph.Repo\<close> of that row without its time of creation;
  and a database that compares \<^verbatim>\<open>uri\<close> as \<^verbatim>\<open>citext\<close> does, in lower case, and orders text by
  its bytes.
\<close>

definition zeroOptions :: RepoListOptions where
  "zeroOptions =
     \<lparr> Query = [], URIs = [], Name_opt = [], Type = [], NoFork = False, Owner = [],
       Sort = [], Direction = [], PerPageOrDefault = 10, Offset = 0 \<rparr>"

definition mirrorRow :: "string \<Rightarrow> string \<Rightarrow> dbRepo" where
  "mirrorRow uri name =
     \<lparr> URI = uri, Origin = [], Name = name, Description = [], VCS = ''git'',
       HTTPCloneURL = ''https://'' @ uri, SSHCloneURL = [], HomepageURL = [],
       DefaultBranch = ''master'', Language = [], Blocked = False, Deprecated = False,
       Fork = False, Mirror = True, Private = False, CreatedAt = 0, UpdatedAt = None,
       PushedAt = None \<rparr>"

fun bytes_le :: "string \<Rightarrow> string \<Rightarrow> bool" where
  "bytes_le [] t = True"
| "bytes_le (a # s) [] = False"
| "bytes_le (a # s) (b # t) =
     ((of_char a :: nat) < of_char b \<or> (a = b \<and> bytes_le s t))"

definition citext_sem :: dbsem where
  "citext_sem =
     \<lparr> uri_eq = (\<lambda>a b. asciiToLower a = asciiToLower b),
       uri_le = (\<lambda>a b. bytes_le (asciiToLower a) (asciiToLower b)),
       text_le = bytes_le, sql_lower = asciiToLower \<rparr>"

definition blockedRow :: dbRepo where
  "blockedRow = (mirrorRow ''acme/secret'' ''secret'')\<lparr>Blocked := True\<rparr>"

definition descriptionOnly :: RepoUpdate where
  "descriptionOnly =
     \<lparr> Repo_op = ''acme/widgets'', Description_op = ''  Widgets for all '', Language_op = [],
       UpdatedAt_op = None, PushedAt_op = None \<rparr>"

definition languageOnly :: RepoUpdate where
  "languageOnly =
     \<lparr> Repo_op = ''acme/widgets'', Description_op = [], Language_op = ''Go'',
       UpdatedAt_op = None, PushedAt_op = None \<rparr>"

definition blankDescription :: RepoUpdate where
  "blankDescription =
     \<lparr> Repo_op = ''acme/widgets'', Description_op = [CHR 0xC2, CHR 0xA0, CHR 0x20, CHR 0x09],
       Language_op = ''Go'', UpdatedAt_op = Some 5, PushedAt_op = None \<rparr>"

text \<open>
  The rows that pass the WHERE clause of the statement that \<open>listSQL\<close> builds for the
  options; no row passes when \<open>listSQL\<close> returns an error.
\<close>

definition admits :: "(string \<Rightarrow> string) \<Rightarrow> dbsem \<Rightarrow> RepoListOptions \<Rightarrow> dbRepo \<Rightarrow> bool" where
  "admits ToLower sem opt r =
     (case listStmt ToLower opt of
        Inl err \<Rightarrow> False
      | Inr (q, args) \<Rightarrow> eval_where sem args (conds q) r)"


section \<open>The text of listSQL is the printed statement\<close>

lemma bindURIs_eq:
  "bindURIs args us =
     (map BindVar [length args ..< length args + length us], args @ map AString us)"
proof (induction us arbitrary: args)
  case Nil
  show ?case by simp
next
  case (Cons u us)
  have "[length args ..< length args + Suc (length us)] =
        length args # [Suc (length args) ..< Suc (length args) + length us]"
    by (simp add: upt_rec)
  then show ?case by (simp add: Cons arg_def)
qed

lemma listSQL_conds_render:
  "listSQL_conds ToLower opt = (map render_cond (fst (listStmt_conds ToLower opt)), snd (listStmt_conds ToLower opt))"
  by (simp add: listSQL_conds_def listStmt_conds_def Let_def bindURIs_eq arg_def split_def
      eval_nat_numeral)

lemma listSQL_where_render:
  "listSQL_where ToLower opt = map_sum id (\<lambda>(cs, args). (render_where cs, args)) (listStmt_where ToLower opt)"
  by (simp add: listSQL_where_def listStmt_where_def listSQL_conds_render render_where_def
      Let_def split_def)

lemma sortKeyToCol_render: "sortKeyToCol s = map_option render_col (sortKeyCol s)"
  by (simp add: sortKeyToCol_def sortKeyCol_def)

lemma listSQL_orderBy_render:
  "listSQL_orderBy ToLower opt args =
     map_sum id (\<lambda>((tb, col, dir), args'). (render_orderBy tb col dir, args'))
       (listStmt_orderBy ToLower opt args)"
  by (simp add: listSQL_orderBy_def listStmt_orderBy_def sortKeyToCol_render render_orderBy_def
      Let_def arg_def split: option.splits)

lemma listSQL_render:
  "listSQL ToLower opt = map_sum id (\<lambda>(q, args). (render_stmt q, args)) (listStmt ToLower opt)"
  by (simp add: listSQL_def listStmt_def listSQL_where_render listSQL_orderBy_render
      render_stmt_def split: sum.splits prod.splits)

lemma listStmt_limit: "listStmt ToLower opt = Inr (q, args) \<Longrightarrow> limitOffset q = None"
  by (auto simp: listStmt_def split: sum.splits prod.splits)

lemma List_sql_render:
  "List_sql ToLower opt = map_sum id (\<lambda>(q, args). (render_stmt q, args)) (List_stmt ToLower opt)"
  by (auto simp: List_sql_def List_stmt_def listSQL_render render_stmt_def arg_def
      split: sum.splits prod.splits dest: listStmt_limit)

section \<open>Rows of a result\<close>

lemma set_insertBy: "set (insertBy le x xs) = insert x (set xs)"
  by (induction xs) auto

lemma set_sortBy: "set (sortBy le xs) = set xs"
  by (induction xs) (auto simp: set_insertBy)

lemma pg_select_rows:
  assumes "pg_select sem db q args = Inr rows" and "r \<in> set rows"
  shows "r \<in> set db \<and> eval_where sem args (conds q) r"
proof -
  let ?all = "sortBy (row_le sem args q) (filter (eval_where sem args (conds q)) db)"
  have "set rows \<subseteq> set ?all"
    using assms(1)
    by (auto simp: pg_select_def Let_def split: if_splits option.splits prod.splits
        dest: in_set_takeD in_set_dropD)
  with assms(2) show ?thesis by (auto simp: set_sortBy)
qed

lemma listStmt_conds_hd: "\<exists>cs. fst (listStmt_conds ToLower opt) = CNotBlocked # cs"
  by (simp add: listStmt_conds_def Let_def split_def)

lemma listStmt_where_hd:
  "listStmt_where ToLower opt = Inr (cs, args) \<Longrightarrow> \<exists>cs'. cs = CNotBlocked # cs'"
  using listStmt_conds_hd [of ToLower opt]
  by (auto simp: listStmt_where_def Let_def split_def split: if_splits)

lemma listStmt_hd: "listStmt ToLower opt = Inr (q, args) \<Longrightarrow> \<exists>cs'. conds q = CNotBlocked # cs'"
  by (auto simp: listStmt_def split: sum.splits prod.splits dest: listStmt_where_hd)

lemma List_stmt_conds:
  "List_stmt ToLower opt = Inr (q, args) \<Longrightarrow>
     \<exists>q0 args0. listStmt ToLower opt = Inr (q0, args0) \<and> conds q = conds q0"
  by (auto simp: List_stmt_def split: sum.splits prod.splits)

lemma List_rows:
  assumes "List ToLower sem db opt = Inr rs" and "r' \<in> set rs"
  shows "\<exists>q args r. List_stmt ToLower opt = Inr (q, args) \<and> r \<in> set db \<and> r' = toRepo r \<and>
           eval_where sem args (conds q) r"
proof (cases "List_stmt ToLower opt")
  case (Inl e)
  with assms show ?thesis by (auto simp: List_def split: if_splits)
next
  case (Inr p)
  obtain q args where p: "p = (q, args)" by (cases p)
  from assms(1) Inr p obtain rows where
    rows: "pg_select sem db q args = Inr rows" "rs = toRepos rows"
    by (auto simp: List_def query_def split: sum.splits)
  from assms(2) rows obtain r where "r \<in> set rows" "r' = toRepo r"
    by (auto simp: toRepos_def)
  with pg_select_rows [OF rows(1)] Inr p show ?thesis by blast
qed

section \<open>Blocked records\<close>

text \<open>
  Claim C2. Whatever the options are, the text that \<open>listSQL\<close> returns starts its WHERE
  clause with the condition \<^verbatim>\<open>(NOT blocked)\<close>, the statement has that condition among
  its conjuncts, and no record that \<open>List\<close> returns is blocked.
\<close>

theorem list_excludes_blocked:
  "(\<forall>sql args. listSQL ToLower opt = Inr (sql, args) \<longrightarrow>
      (\<exists>rest. sql = ''SELECT repo.* FROM repo WHERE ((NOT blocked))'' @ rest)) \<and>
   (\<forall>q args. listStmt ToLower opt = Inr (q, args) \<longrightarrow> CNotBlocked \<in> set (conds q)) \<and>
   (\<forall>rs. List ToLower sem db opt = Inr rs \<longrightarrow> (\<forall>r \<in> set rs. \<not> Blocked_repo r))"
proof (intro conjI allI impI ballI)
  fix sql args
  assume "listSQL ToLower opt = Inr (sql, args)"
  then obtain q where q: "listStmt ToLower opt = Inr (q, args)" "sql = render_stmt q"
    by (auto simp: listSQL_render map_sum_def split: sum.splits)
  from listStmt_hd [OF q(1)] obtain cs where cs: "conds q = CNotBlocked # cs" by blast
  show "\<exists>rest. sql = ''SELECT repo.* FROM repo WHERE ((NOT blocked))'' @ rest"
  proof (cases cs)
    case Nil
    with cs q(2) show ?thesis by (simp add: render_stmt_def render_where_def)
  next
    case (Cons c cs')
    with cs q(2) show ?thesis by (simp add: render_stmt_def render_where_def)
  qed
next
  fix q args
  assume "listStmt ToLower opt = Inr (q, args)"
  from listStmt_hd [OF this] show "CNotBlocked \<in> set (conds q)" by auto
next
  fix rs r'
  assume a: "List ToLower sem db opt = Inr rs" "r' \<in> set rs"
  from List_rows [OF a] obtain q args r where
    q: "List_stmt ToLower opt = Inr (q, args)" and r: "r' = toRepo r" "eval_where sem args (conds q) r"
    by blast
  from List_stmt_conds [OF q] listStmt_hd obtain cs where "conds q = CNotBlocked # cs"
    by metis
  with r(2) have "\<not> Blocked r" by (simp add: eval_where_def)
  with r(1) show "\<not> Blocked_repo r'" by (simp add: toRepo_def)
qed

theorem list_excludes_blocked_witness:
  "List asciiToLower citext_sem [blockedRow, mirrorRow ''acme/open'' ''open''] zeroOptions =
     Inr [toRepo (mirrorRow ''acme/open'' ''open'')] \<and>
   \<not> Blocked_repo (toRepo (mirrorRow ''acme/open'' ''open''))"
proof -
  have e: "List asciiToLower citext_sem [blockedRow, mirrorRow ''acme/open'' ''open''] zeroOptions =
             Inr [toRepo (mirrorRow ''acme/open'' ''open'')]"
    by code_simp
  have "\<forall>r \<in> set [toRepo (mirrorRow ''acme/open'' ''open'')]. \<not> Blocked_repo r"
    using list_excludes_blocked
      [of asciiToLower zeroOptions citext_sem "[blockedRow, mirrorRow ''acme/open'' ''open'']"] e
    by blast
  with e show ?thesis by simp
qed

section \<open>Validation of the options\<close>

lemma sortKeyCol_None:
  "sortKeyCol s = None \<longleftrightarrow> s \<notin> {''uri'', ''path'', ''name'', ''created'', ''updated'', ''pushed''}"
  by (simp add: sortKeyCol_def)

lemma isStr_append: "isStr args k \<Longrightarrow> isStr (args @ ext) k"
  by (auto simp: isStr_def nth_append)

lemma argStr_append: "k < length args \<Longrightarrow> argStr (args @ ext) k = argStr args k"
  by (simp add: argStr_def nth_append)

lemma isStr_map_AString: "k < length us \<Longrightarrow> isStr (map AString us @ ext) k"
  by (simp add: isStr_def nth_append)

lemma isStr_snoc: "isStr (args @ AString s # ext) (length args)"
  by (simp add: isStr_def nth_append)

lemma cond_ok_append: "cond_ok args c \<Longrightarrow> cond_ok (args @ ext) c"
  by (cases c) (auto simp: list_all_iff isStr_append)

lemma eval_cond_append: "cond_ok args c \<Longrightarrow> eval_cond sem (args @ ext) r c = eval_cond sem args r c"
  by (cases c) (auto simp: list_all_iff list_ex_iff isStr_def argStr_append)

lemma conds_ok_append: "list_all (cond_ok args) cs \<Longrightarrow> list_all (cond_ok (args @ ext)) cs"
  by (auto simp: list_all_iff cond_ok_append)

lemma eval_where_append:
  "list_all (cond_ok args) cs \<Longrightarrow> eval_where sem (args @ ext) cs r = eval_where sem args cs r"
  by (auto simp: eval_where_def list_all_iff eval_cond_append)

lemma listURIs_nonempty: "URIs opt \<noteq> [] \<Longrightarrow> listURIs opt \<noteq> []"
proof -
  have "splitFrom cur s sep \<noteq> []" for cur s sep
    by (induction cur s sep rule: splitFrom.induct) auto
  then show "URIs opt \<noteq> [] \<Longrightarrow> listURIs opt \<noteq> []"
    by (auto simp: listURIs_def Split_def)
qed

lemma listStmt_conds_ok:
  "list_all (cond_ok (snd (listStmt_conds ToLower opt))) (fst (listStmt_conds ToLower opt))"
  by (auto simp: listStmt_conds_def Let_def split_def list_all_iff isStr_def nth_append
      listURIs_nonempty)

lemma listStmt_where_ok:
  "listStmt_where ToLower opt = Inr (cs, args) \<Longrightarrow> list_all (cond_ok args) cs"
  using listStmt_conds_ok [of ToLower opt]
  by (auto simp: listStmt_where_def Let_def split_def split: if_splits)

lemma listStmt_orderBy_args:
  "listStmt_orderBy ToLower opt args = Inr ((tb, col, dir), args') \<Longrightarrow>
     (tb = None \<and> args' = args \<and> uriQuery ToLower opt = []) \<or>
     (tb = Some (length args) \<and> args' = args @ [AString (ToLower (Base (uriQuery ToLower opt)))] \<and> uriQuery ToLower opt \<noteq> [])"
  by (auto simp: listStmt_orderBy_def Let_def split: if_splits option.splits)

lemma listStmt_parts:
  "listStmt ToLower opt = Inr (q, args) \<Longrightarrow>
     \<exists>wargs. listStmt_where ToLower opt = Inr (conds q, wargs) \<and>
       listStmt_orderBy ToLower opt wargs = Inr ((tiebreak q, sortCol q, sortDir q), args) \<and> limitOffset q = None"
  by (auto simp: listStmt_def split: sum.splits prod.splits)

lemma listStmt_ok: "listStmt ToLower opt = Inr (q, args) \<Longrightarrow> stmt_ok q args"
proof -
  assume "listStmt ToLower opt = Inr (q, args)"
  from listStmt_parts [OF this] obtain wargs where
    w: "listStmt_where ToLower opt = Inr (conds q, wargs)" and
    o: "listStmt_orderBy ToLower opt wargs = Inr ((tiebreak q, sortCol q, sortDir q), args)" and
    l: "limitOffset q = None" by blast
  from listStmt_orderBy_args [OF o] listStmt_where_ok [OF w] l show ?thesis
    by (auto simp: stmt_ok_def conds_ok_append isStr_def)
qed

lemma List_stmt_ok: "List_stmt ToLower opt = Inr (q, args) \<Longrightarrow> stmt_ok q args"
proof -
  assume a: "List_stmt ToLower opt = Inr (q, args)"
  then obtain q0 args0 where q0: "listStmt ToLower opt = Inr (q0, args0)"
    "q = q0\<lparr>limitOffset := Some (length args0, length args0 + 1)\<rparr>"
    "args = args0 @ [AInt (PerPageOrDefault opt), AInt (Offset opt)]"
    by (auto simp: List_stmt_def split: sum.splits prod.splits)
  from listStmt_ok [OF q0(1)] q0(2,3) show ?thesis
    by (auto simp: stmt_ok_def conds_ok_append isStr_append isInt_def nth_append split: option.splits)
qed

lemma query_error: "query sem db q args = Inl e \<Longrightarrow> e = ExecutionFailure"
  by (auto simp: query_def pg_select_def Let_def split: sum.splits if_splits option.splits prod.splits)

lemma listStmt_badType:
  "Type opt \<notin> {[], ''all'', ''public'', ''private''} \<Longrightarrow>
     listStmt ToLower opt = Inl (InvalidArgument ''invalid state'')"
  by (auto simp: listStmt_def listStmt_where_def Let_def split_def)

lemma listStmt_owner:
  "Type opt \<in> {[], ''all'', ''public'', ''private''} \<Longrightarrow> Owner opt \<noteq> [] \<Longrightarrow>
     listStmt ToLower opt = Inl errOptionsSpecifyEmptyResult"
  by (auto simp: listStmt_def listStmt_where_def Let_def split_def)

lemma listStmt_where_valid:
  "Type opt \<in> {[], ''all'', ''public'', ''private''} \<Longrightarrow> Owner opt = [] \<Longrightarrow>
     \<exists>cs args. listStmt_where ToLower opt = Inr (cs, args)"
  by (auto simp: listStmt_where_def Let_def split_def)

lemma listStmt_orderBy_badSort:
  "Sort opt \<notin> {[], ''uri'', ''path'', ''name'', ''created'', ''updated'', ''pushed''} \<Longrightarrow>
     listStmt_orderBy ToLower opt args = Inl (InvalidArgument (''invalid sort: '' @ Sort opt))"
  by (simp add: listStmt_orderBy_def Let_def split_def sortKeyCol_def)

lemma sortKeyCol_Some:
  "s \<in> {''uri'', ''path'', ''name'', ''created'', ''updated'', ''pushed''} \<Longrightarrow> \<exists>c. sortKeyCol s = Some c"
  by (auto simp: sortKeyCol_def)

lemma listStmt_orderBy_badDir:
  assumes "Sort opt \<in> {[], ''uri'', ''path'', ''name'', ''created'', ''updated'', ''pushed''}"
    and "Direction opt \<notin> {[], ''asc'', ''desc''}"
  shows "listStmt_orderBy ToLower opt args = Inl (InvalidArgument (''invalid direction: '' @ Direction opt))"
proof -
  let ?s = "if Sort opt = [] then ''uri'' else Sort opt"
  from assms(1) have "?s \<in> {''uri'', ''path'', ''name'', ''created'', ''updated'', ''pushed''}"
    by auto
  from sortKeyCol_Some [OF this] obtain c where "sortKeyCol ?s = Some c" by blast
  with assms(2) show ?thesis by (simp add: listStmt_orderBy_def Let_def split_def)
qed

lemma listStmt_orderBy_valid:
  assumes "Sort opt \<in> {[], ''uri'', ''path'', ''name'', ''created'', ''updated'', ''pushed''}"
    and "Direction opt \<in> {[], ''asc'', ''desc''}"
  shows "\<exists>tb col dir args'. listStmt_orderBy ToLower opt args = Inr ((tb, col, dir), args')"
proof -
  let ?s = "if Sort opt = [] then ''uri'' else Sort opt"
  from assms(1) have "?s \<in> {''uri'', ''path'', ''name'', ''created'', ''updated'', ''pushed''}"
    by auto
  from sortKeyCol_Some [OF this] obtain c where "sortKeyCol ?s = Some c" by blast
  with assms(2) show ?thesis by (auto simp: listStmt_orderBy_def Let_def split_def)
qed

lemma listStmt_badSort:
  assumes "Type opt \<in> {[], ''all'', ''public'', ''private''}" and "Owner opt = []"
    and "Sort opt \<notin> {[], ''uri'', ''path'', ''name'', ''created'', ''updated'', ''pushed''}"
  shows "listStmt ToLower opt = Inl (InvalidArgument (''invalid sort: '' @ Sort opt))"
proof -
  from listStmt_where_valid [OF assms(1,2)] obtain cs args where
    "listStmt_where ToLower opt = Inr (cs, args)" by blast
  then show ?thesis by (simp add: listStmt_def listStmt_orderBy_badSort [OF assms(3)])
qed

lemma listStmt_badDir:
  assumes "Type opt \<in> {[], ''all'', ''public'', ''private''}" and "Owner opt = []"
    and "Sort opt \<in> {[], ''uri'', ''path'', ''name'', ''created'', ''updated'', ''pushed''}"
    and "Direction opt \<notin> {[], ''asc'', ''desc''}"
  shows "listStmt ToLower opt = Inl (InvalidArgument (''invalid direction: '' @ Direction opt))"
proof -
  from listStmt_where_valid [OF assms(1,2)] obtain cs args where
    "listStmt_where ToLower opt = Inr (cs, args)" by blast
  then show ?thesis by (simp add: listStmt_def listStmt_orderBy_badDir [OF assms(3,4)])
qed

lemma listStmt_valid:
  assumes "Type opt \<in> {[], ''all'', ''public'', ''private''}" and "Owner opt = []"
    and "Sort opt \<in> {[], ''uri'', ''path'', ''name'', ''created'', ''updated'', ''pushed''}"
    and "Direction opt \<in> {[], ''asc'', ''desc''}"
  shows "\<exists>q args. listStmt ToLower opt = Inr (q, args)"
proof -
  from listStmt_where_valid [OF assms(1,2)] obtain cs args where
    w: "listStmt_where ToLower opt = Inr (cs, args)" by blast
  from listStmt_orderBy_valid [OF assms(3,4), of ToLower args] obtain tb col dir args' where
    "listStmt_orderBy ToLower opt args = Inr ((tb, col, dir), args')" by blast
  with w show ?thesis by (simp add: listStmt_def)
qed

lemma List_of_listStmt_Inl:
  "listStmt ToLower opt = Inl e \<Longrightarrow>
     List ToLower sem db opt = (if e = errOptionsSpecifyEmptyResult then Inr [] else Inl e)"
  by (simp add: List_def List_stmt_def)

lemma List_of_listStmt_Inr:
  "listStmt ToLower opt = Inr p \<Longrightarrow> List ToLower sem db opt \<noteq> Inl (InvalidArgument msg)"
  by (cases p) (auto simp: List_def List_stmt_def dest: query_error)

text \<open>
  Claim C3, as the code has it. \<open>List\<close> fails with \<^verbatim>\<open>InvalidArgument\<close> exactly when the
  visibility is none of the empty string, \<^verbatim>\<open>all\<close>, \<^verbatim>\<open>public\<close> and \<^verbatim>\<open>private\<close>, or the owner is
  empty and the sort key is none of the empty string and the six keys of the map, or the
  owner is empty and the direction is none of the empty string, \<^verbatim>\<open>asc\<close> and \<^verbatim>\<open>desc\<close>. The
  owner is checked after the visibility and before the sort key and the direction.
\<close>

theorem list_invalid_argument:
  "(\<exists>msg. List ToLower sem db opt = Inl (InvalidArgument msg)) \<longleftrightarrow>
     (Type opt \<notin> {[], ''all'', ''public'', ''private''} \<or>
      (Owner opt = [] \<and>
       (Sort opt \<notin> {[], ''uri'', ''path'', ''name'', ''created'', ''updated'', ''pushed''} \<or>
        Direction opt \<notin> {[], ''asc'', ''desc''})))"
  (is "?L \<longleftrightarrow> ?T \<or> (?O \<and> (?S \<or> ?D))")
proof (cases ?T)
  case True
  from List_of_listStmt_Inl [OF listStmt_badType [OF True], of ToLower sem db] True
  show ?thesis by simp
next
  case nT: False
  then have T: "Type opt \<in> {[], ''all'', ''public'', ''private''}" by blast
  show ?thesis
  proof (cases ?O)
    case False
    from List_of_listStmt_Inl [OF listStmt_owner [OF T False], of ToLower sem db] nT False
    show ?thesis by simp
  next
    case O: True
    show ?thesis
    proof (cases ?S)
      case True
      from List_of_listStmt_Inl [OF listStmt_badSort [OF T O True], of ToLower sem db] True O
      show ?thesis by simp
    next
      case nS: False
      then have S: "Sort opt \<in> {[], ''uri'', ''path'', ''name'', ''created'', ''updated'', ''pushed''}"
        by blast
      show ?thesis
      proof (cases ?D)
        case True
        from List_of_listStmt_Inl [OF listStmt_badDir [OF T O S True], of ToLower sem db] True O
        show ?thesis by simp
      next
        case nD: False
        then have D: "Direction opt \<in> {[], ''asc'', ''desc''}" by blast
        from listStmt_valid [OF T O S D] obtain q args where "listStmt ToLower opt = Inr (q, args)"
          by blast
        from List_of_listStmt_Inr [OF this, of sem db] have "\<not> ?L" by blast
        with nT nS nD show ?thesis by blast
      qed
    qed
  qed
qed

text \<open>
  With an owner, a sort key outside the map is not an error: the result is empty.
\<close>

theorem list_invalid_argument_counterexample:
  "sortKeyToCol ''stars'' = None \<and>
   List asciiToLower citext_sem [] (zeroOptions\<lparr>Owner := ''alice'', Sort := ''stars''\<rparr>) = Inr []"
  by code_simp

theorem list_invalid_argument_witness:
  "Type (zeroOptions\<lparr>Sort := ''stars''\<rparr>) = [] \<and> Owner (zeroOptions\<lparr>Sort := ''stars''\<rparr>) = [] \<and>
   (\<exists>msg. List asciiToLower citext_sem [] (zeroOptions\<lparr>Sort := ''stars''\<rparr>) = Inl (InvalidArgument msg))"
  using list_invalid_argument [of asciiToLower citext_sem "[]" "zeroOptions\<lparr>Sort := ''stars''\<rparr>"]
  by (simp add: zeroOptions_def)

text \<open>
  Claim C4, as the code has it. With an owner and a visibility among the empty string,
  \<^verbatim>\<open>all\<close>, \<^verbatim>\<open>public\<close> and \<^verbatim>\<open>private\<close>, \<open>listSQL\<close> returns the sentinel and \<open>List\<close> returns
  the empty result with no error, whatever the other options and the table are. With an
  owner and any other visibility, \<open>List\<close> fails with \<^verbatim>\<open>InvalidArgument\<close>.
\<close>

theorem list_owner_empty:
  "Owner opt \<noteq> [] \<Longrightarrow>
     (Type opt \<in> {[], ''all'', ''public'', ''private''} \<longrightarrow>
        listSQL ToLower opt = Inl errOptionsSpecifyEmptyResult \<and> List ToLower sem db opt = Inr []) \<and>
     (Type opt \<notin> {[], ''all'', ''public'', ''private''} \<longrightarrow>
        List ToLower sem db opt = Inl (InvalidArgument ''invalid state''))"
proof (intro conjI impI)
  assume o: "Owner opt \<noteq> []" and t: "Type opt \<in> {[], ''all'', ''public'', ''private''}"
  from listStmt_owner [OF t o] show "listSQL ToLower opt = Inl errOptionsSpecifyEmptyResult"
    by (simp add: listSQL_render)
  from List_of_listStmt_Inl [OF listStmt_owner [OF t o], of ToLower sem db]
  show "List ToLower sem db opt = Inr []" by simp
next
  assume t: "Type opt \<notin> {[], ''all'', ''public'', ''private''}"
  from List_of_listStmt_Inl [OF listStmt_badType [OF t], of ToLower sem db]
  show "List ToLower sem db opt = Inl (InvalidArgument ''invalid state'')" by simp
qed

text \<open>With an owner and the visibility \<^verbatim>\<open>secret\<close> the result is the error.\<close>

theorem list_owner_empty_counterexample:
  "List asciiToLower citext_sem [mirrorRow ''acme/open'' ''open'']
     (zeroOptions\<lparr>Owner := ''alice'', Type := ''secret''\<rparr>) =
     Inl (InvalidArgument ''invalid state'')"
  by code_simp

theorem list_owner_empty_witness:
  "Owner (zeroOptions\<lparr>Owner := ''alice'', Sort := ''stars'', Query := ''open''\<rparr>) \<noteq> [] \<and>
   List asciiToLower citext_sem [mirrorRow ''acme/open'' ''open'']
     (zeroOptions\<lparr>Owner := ''alice'', Sort := ''stars'', Query := ''open''\<rparr>) = Inr []"
  using list_owner_empty [of "zeroOptions\<lparr>Owner := ''alice'', Sort := ''stars'', Query := ''open''\<rparr>"
      asciiToLower citext_sem "[mirrorRow ''acme/open'' ''open'']"]
  by (simp add: zeroOptions_def)

section \<open>Create\<close>

text \<open>
  Claim C7. For a record with \<^verbatim>\<open>Mirror\<close> false, \<open>Create\<close> returns
  \<^verbatim>\<open>store.ErrRepoMirrorOnly\<close> and leaves the state behind the handle as it was, for every
  handle and every value of the other fields: the handle is not called, and the check of
  the clone URLs is not reached.
\<close>

theorem create_mirror_only:
  "\<not> Mirror_repo newRepo \<Longrightarrow> Create ins h newRepo = (Inl ErrRepoMirrorOnly, h)"
  by (simp add: Create_def)

theorem create_mirror_only_witness:
  "\<not> Mirror_repo ((toRepo (mirrorRow ''acme/widgets'' ''widgets''))
        \<lparr>Mirror_repo := False, HTTPCloneURL_repo := []\<rparr>) \<and>
   Create log_Insert [] ((toRepo (mirrorRow ''acme/widgets'' ''widgets''))
        \<lparr>Mirror_repo := False, HTTPCloneURL_repo := []\<rparr>) = (Inl ErrRepoMirrorOnly, [])"
  using create_mirror_only [of "(toRepo (mirrorRow ''acme/widgets'' ''widgets''))
        \<lparr>Mirror_repo := False, HTTPCloneURL_repo := []\<rparr>" log_Insert "[]"]
  by simp

section \<open>Update\<close>

lemma spaceRunes_found:
  "list_all (\<lambda>w. \<forall>rest. find (\<lambda>v. prefix v (w @ rest)) spaceRunes = Some w) spaceRunes"
  by (simp add: spaceRunes_def)

lemma runeWidth_space:
  "w \<in> set spaceRunes \<Longrightarrow> runeWidth spaceRunes (w @ rest) = length w"
  using spaceRunes_found by (simp add: list_all_iff runeWidth_def)

lemma spaceRunes_nonempty: "[] \<notin> set spaceRunes"
  by (simp add: spaceRunes_def)

lemma stripRunes_rune:
  assumes "w \<in> set spaceRunes"
  shows "stripRunes spaceRunes (w @ rest) = stripRunes spaceRunes rest"
proof -
  from assms spaceRunes_nonempty have "w \<noteq> []" by auto
  then obtain c cs where c: "w = c # cs" by (cases w) auto
  have "runeWidth spaceRunes (c # cs @ rest) = Suc (length cs)"
    using runeWidth_space [OF assms, of rest] c by simp
  then show ?thesis by (simp add: c)
qed

lemma stripRunes_concat:
  "set ws \<subseteq> set spaceRunes \<Longrightarrow> stripRunes spaceRunes (concat ws) = []"
  by (induction ws) (simp_all add: stripRunes_rune)

lemma TrimSpace_spaces: "set ws \<subseteq> set spaceRunes \<Longrightarrow> TrimSpace (concat ws) = []"
  by (simp add: TrimSpace_def stripRunes_concat)

lemma setWhere_cols:
  "map URI (setWhere sem u (\<lambda>r. r\<lparr>Description := v\<rparr>) db) = map URI db"
  "map Language (setWhere sem u (\<lambda>r. r\<lparr>Description := v\<rparr>) db) = map Language db"
  "map UpdatedAt (setWhere sem u (\<lambda>r. r\<lparr>Description := v\<rparr>) db) = map UpdatedAt db"
  "map PushedAt (setWhere sem u (\<lambda>r. r\<lparr>Description := v\<rparr>) db) = map PushedAt db"
  by (simp_all add: setWhere_def)

text \<open>
  Claim C8. When only the description is supplied, \<open>Update\<close> makes one call of the
  handle, whatever the handle is: the statement that sets column \<^verbatim>\<open>description\<close> to the
  trimmed value in the rows of that \<^verbatim>\<open>uri\<close>. On the table that call changes no \<^verbatim>\<open>uri\<close>,
  \<^verbatim>\<open>language\<close>, \<^verbatim>\<open>updated_at\<close> or \<^verbatim>\<open>pushed_at\<close>. When nothing is supplied, \<open>Update\<close> makes no
  call, leaves the state as it was and returns no error.
\<close>

theorem update_description_only:
  assumes "Language_op op = []" and "UpdatedAt_op op = None" and "PushedAt_op op = None"
  shows \<open>(Description_op op \<noteq> [] \<longrightarrow>
            Update ex h op =
              ex h ''UPDATE repo SET "description"=$1 WHERE uri=$2''
                [AString (TrimSpace (Description_op op)), AString (Repo_op op)] \<and>
            Update log_Exec [] op =
              (None, [(''UPDATE repo SET "description"=$1 WHERE uri=$2'',
                       [AString (TrimSpace (Description_op op)), AString (Repo_op op)])]) \<and>
            (\<exists>db'. Update (pg_Exec sem) db op = (None, db') \<and>
               db' = setWhere sem (Repo_op op) (\<lambda>r. r\<lparr>Description := TrimSpace (Description_op op)\<rparr>) db \<and>
               map URI db' = map URI db \<and> map Language db' = map Language db \<and>
               map UpdatedAt db' = map UpdatedAt db \<and> map PushedAt db' = map PushedAt db)) \<and>
         (Description_op op = [] \<longrightarrow>
            Update ex h op = (None, h) \<and> Update log_Exec [] op = (None, []))\<close>
proof -
  have one: \<open>Update ex' h' op =
              ex' h' ''UPDATE repo SET "description"=$1 WHERE uri=$2''
                [AString (TrimSpace (Description_op op)), AString (Repo_op op)]\<close>
    if "Description_op op \<noteq> []" for ex' :: "'x \<Rightarrow> string \<Rightarrow> sqlarg list \<Rightarrow> error option \<times> 'x" and h'
    using that assms by (auto simp: Update_def Let_def split: prod.splits)
  have none: "Update ex' h' op = (None, h')"
    if "Description_op op = []" for ex' :: "'x \<Rightarrow> string \<Rightarrow> sqlarg list \<Rightarrow> error option \<times> 'x" and h'
    using that assms by (simp add: Update_def)
  show ?thesis
    by (auto simp: one none log_Exec_def pg_Exec_def setWhere_cols)
qed


theorem update_description_only_witness:
  \<open>Language_op descriptionOnly = [] \<and> UpdatedAt_op descriptionOnly = None \<and>
   PushedAt_op descriptionOnly = None \<and>
   Update log_Exec [] descriptionOnly =
     (None, [(''UPDATE repo SET "description"=$1 WHERE uri=$2'',
              [AString ''Widgets for all'', AString ''acme/widgets''])])\<close>
proof -
  have t: "TrimSpace (Description_op descriptionOnly) = ''Widgets for all''"
    by code_simp
  from update_description_only [of descriptionOnly log_Exec "[]" citext_sem "[]"] t
  show ?thesis by (simp add: descriptionOnly_def log_Exec_def)
qed

lemma Update_log:
  \<open>Update log_Exec h op =
     (None, h @
        (if Description_op op \<noteq> []
         then [(''UPDATE repo SET "description"=$1 WHERE uri=$2'',
                [AString (TrimSpace (Description_op op)), AString (Repo_op op)])] else []) @
        (if Language_op op \<noteq> []
         then [(''UPDATE repo SET "language"=$1 WHERE uri=$2'',
                [AString (TrimSpace (Language_op op)), AString (Repo_op op)])] else []) @
        (case UpdatedAt_op op of
           Some t \<Rightarrow> [(''UPDATE repo SET "updated_at"=$1 WHERE uri=$2'',
                       [ATime t, AString (Repo_op op)])]
         | None \<Rightarrow> []) @
        (case PushedAt_op op of
           Some t \<Rightarrow> [(''UPDATE repo SET "pushed_at"=$1 WHERE uri=$2'',
                       [ATime t, AString (Repo_op op)])]
         | None \<Rightarrow> []))\<close>
  by (simp add: Update_def log_Exec_def split: option.splits)

lemma Update_pg:
  "Update (pg_Exec sem) db op =
     (None,
      (case PushedAt_op op of Some t \<Rightarrow> setWhere sem (Repo_op op) (\<lambda>r. r\<lparr>PushedAt := Some t\<rparr>) | None \<Rightarrow> id)
      ((case UpdatedAt_op op of Some t \<Rightarrow> setWhere sem (Repo_op op) (\<lambda>r. r\<lparr>UpdatedAt := Some t\<rparr>) | None \<Rightarrow> id)
       ((if Language_op op \<noteq> [] then setWhere sem (Repo_op op) (\<lambda>r. r\<lparr>Language := TrimSpace (Language_op op)\<rparr>) else id)
        ((if Description_op op \<noteq> [] then setWhere sem (Repo_op op) (\<lambda>r. r\<lparr>Description := TrimSpace (Description_op op)\<rparr>) else id)
         db))))"
  by (simp add: Update_def pg_Exec_def split: option.splits)

lemma setWhere_keeps_Description:
  "map Description (setWhere sem u (\<lambda>r. r\<lparr>Language := v\<rparr>) db) = map Description db"
  "map Description (setWhere sem u (\<lambda>r. r\<lparr>UpdatedAt := t\<rparr>) db) = map Description db"
  "map Description (setWhere sem u (\<lambda>r. r\<lparr>PushedAt := t\<rparr>) db) = map Description db"
  by (simp_all add: setWhere_def)

lemma setWhere_keeps_Language:
  "map Language (setWhere sem u (\<lambda>r. r\<lparr>Description := v\<rparr>) db) = map Language db"
  "map Language (setWhere sem u (\<lambda>r. r\<lparr>UpdatedAt := t\<rparr>) db) = map Language db"
  "map Language (setWhere sem u (\<lambda>r. r\<lparr>PushedAt := t\<rparr>) db) = map Language db"
  by (simp_all add: setWhere_def)

lemma setWhere_Description:
  "map Description (setWhere sem u (\<lambda>r. r\<lparr>Description := v\<rparr>) db) =
     map (\<lambda>r. if uri_eq sem (URI r) u then v else Description r) db"
  by (simp add: setWhere_def)

lemma setWhere_Language:
  "map Language (setWhere sem u (\<lambda>r. r\<lparr>Language := v\<rparr>) db) =
     map (\<lambda>r. if uri_eq sem (URI r) u then v else Language r) db"
  by (simp add: setWhere_def)

lemma setWhere_Language_after:
  "map (\<lambda>r. if uri_eq sem (URI r) u then v else Language r)
       (setWhere sem u (\<lambda>r. r\<lparr>Description := w\<rparr>) db) =
     map (\<lambda>r. if uri_eq sem (URI r) u then v else Language r) db"
  by (simp add: setWhere_def)

lemma Update_first_call:
  assumes "Description_op op \<noteq> []"
  shows \<open>Update ex h op =
     (case ex h ''UPDATE repo SET "description"=$1 WHERE uri=$2''
             [AString (TrimSpace (Description_op op)), AString (Repo_op op)] of
        (Some err, h1) \<Rightarrow> (Some err, h1)
      | (None, h1) \<Rightarrow> Update ex h1 (op\<lparr>Description_op := []\<rparr>))\<close>
  using assms by (auto simp: Update_def Let_def split: prod.splits option.splits)

text \<open>
  Claim C9. An empty description is not supplied: \<open>Update\<close> then issues no statement for
  column \<^verbatim>\<open>description\<close> and leaves that column of every row as it was, whatever else is
  supplied; the same holds for the language. A description that is not empty and that
  \<open>TrimSpace\<close> makes empty is supplied, whatever else is supplied: the first call of
  the handle is the statement for column \<^verbatim>\<open>description\<close> with the empty string, and the
  rows of that \<^verbatim>\<open>uri\<close> then hold the empty string; the same holds for the language. A
  string of white-space code points only is one that \<open>TrimSpace\<close> makes empty.
\<close>

theorem update_empty_string:
  \<open>(Description_op op = [] \<longrightarrow>
      map Description (snd (Update (pg_Exec sem) db op)) = map Description db \<and>
      ''UPDATE repo SET "description"=$1 WHERE uri=$2'' \<notin> fst ` set (snd (Update log_Exec [] op))) \<and>
   (Language_op op = [] \<longrightarrow>
      map Language (snd (Update (pg_Exec sem) db op)) = map Language db \<and>
      ''UPDATE repo SET "language"=$1 WHERE uri=$2'' \<notin> fst ` set (snd (Update log_Exec [] op))) \<and>
   (Description_op op \<noteq> [] \<and> TrimSpace (Description_op op) = [] \<longrightarrow>
      Update ex h op =
        (case ex h ''UPDATE repo SET "description"=$1 WHERE uri=$2'' [AString [], AString (Repo_op op)] of
           (Some err, h1) \<Rightarrow> (Some err, h1)
         | (None, h1) \<Rightarrow> Update ex h1 (op\<lparr>Description_op := []\<rparr>)) \<and>
      (''UPDATE repo SET "description"=$1 WHERE uri=$2'', [AString [], AString (Repo_op op)])
        \<in> set (snd (Update log_Exec [] op)) \<and>
      map Description (snd (Update (pg_Exec sem) db op)) =
        map (\<lambda>r. if uri_eq sem (URI r) (Repo_op op) then [] else Description r) db) \<and>
   (Language_op op \<noteq> [] \<and> TrimSpace (Language_op op) = [] \<longrightarrow>
      (''UPDATE repo SET "language"=$1 WHERE uri=$2'', [AString [], AString (Repo_op op)])
        \<in> set (snd (Update log_Exec [] op)) \<and>
      map Language (snd (Update (pg_Exec sem) db op)) =
        map (\<lambda>r. if uri_eq sem (URI r) (Repo_op op) then [] else Language r) db) \<and>
   (set ws \<subseteq> set spaceRunes \<longrightarrow> TrimSpace (concat ws) = [])\<close>
proof (intro conjI impI)
  assume "Description_op op = []"
  then show "map Description (snd (Update (pg_Exec sem) db op)) = map Description db"
    by (simp add: Update_pg setWhere_keeps_Description split: option.splits)
next
  assume "Description_op op = []"
  then show \<open>''UPDATE repo SET "description"=$1 WHERE uri=$2'' \<notin> fst ` set (snd (Update log_Exec [] op))\<close>
    by (auto simp: Update_log split: option.splits)
next
  assume "Language_op op = []"
  then show "map Language (snd (Update (pg_Exec sem) db op)) = map Language db"
    by (simp add: Update_pg setWhere_keeps_Language split: option.splits)
next
  assume "Language_op op = []"
  then show \<open>''UPDATE repo SET "language"=$1 WHERE uri=$2'' \<notin> fst ` set (snd (Update log_Exec [] op))\<close>
    by (auto simp: Update_log split: option.splits)
next
  assume a: "Description_op op \<noteq> [] \<and> TrimSpace (Description_op op) = []"
  from a Update_first_call [of op ex h]
  show \<open>Update ex h op =
        (case ex h ''UPDATE repo SET "description"=$1 WHERE uri=$2'' [AString [], AString (Repo_op op)] of
           (Some err, h1) \<Rightarrow> (Some err, h1)
         | (None, h1) \<Rightarrow> Update ex h1 (op\<lparr>Description_op := []\<rparr>))\<close>
    by simp
  from a show \<open>(''UPDATE repo SET "description"=$1 WHERE uri=$2'', [AString [], AString (Repo_op op)])
        \<in> set (snd (Update log_Exec [] op))\<close>
    by (simp add: Update_log)
  from a show "map Description (snd (Update (pg_Exec sem) db op)) =
        map (\<lambda>r. if uri_eq sem (URI r) (Repo_op op) then [] else Description r) db"
    by (simp add: Update_pg setWhere_keeps_Description setWhere_Description split: option.splits)
next
  assume a: "Language_op op \<noteq> [] \<and> TrimSpace (Language_op op) = []"
  from a show \<open>(''UPDATE repo SET "language"=$1 WHERE uri=$2'', [AString [], AString (Repo_op op)])
        \<in> set (snd (Update log_Exec [] op))\<close>
    by (simp add: Update_log)
  from a show "map Language (snd (Update (pg_Exec sem) db op)) =
        map (\<lambda>r. if uri_eq sem (URI r) (Repo_op op) then [] else Language r) db"
    by (simp add: Update_pg setWhere_keeps_Language setWhere_Language setWhere_Language_after
        split: option.splits)
next
  assume "set ws \<subseteq> set spaceRunes"
  then show "TrimSpace (concat ws) = []" by (rule TrimSpace_spaces)
qed

theorem update_empty_string_witness:
  \<open>Description_op languageOnly = [] \<and>
   Description_op blankDescription \<noteq> [] \<and> TrimSpace (Description_op blankDescription) = [] \<and>
   map Description (snd (Update (pg_Exec citext_sem)
      [(mirrorRow ''acme/widgets'' ''widgets'')\<lparr>Description := ''old''\<rparr>] languageOnly)) = [''old''] \<and>
   (''UPDATE repo SET "description"=$1 WHERE uri=$2'', [AString [], AString ''acme/widgets''])
      \<in> set (snd (Update log_Exec [] blankDescription)) \<and>
   map Description (snd (Update (pg_Exec citext_sem)
      [(mirrorRow ''acme/widgets'' ''widgets'')\<lparr>Description := ''old''\<rparr>,
       (mirrorRow ''acme/gears'' ''gears'')\<lparr>Description := ''kept''\<rparr>] blankDescription)) = [[], ''kept'']\<close>
proof -
  have d: "Description_op languageOnly = []" by (simp add: languageOnly_def)
  have b: "Description_op blankDescription \<noteq> [] \<and> TrimSpace (Description_op blankDescription) = []"
    by code_simp
  have r: "Repo_op blankDescription = ''acme/widgets''" by (simp add: blankDescription_def)
  note t1 = update_empty_string [where op = languageOnly and sem = citext_sem
      and db = "[(mirrorRow ''acme/widgets'' ''widgets'')\<lparr>Description := ''old''\<rparr>]",
      THEN conjunct1, rule_format, OF d, THEN conjunct1]
  note t2 = update_empty_string [where op = blankDescription and sem = citext_sem
      and db = "[(mirrorRow ''acme/widgets'' ''widgets'')\<lparr>Description := ''old''\<rparr>,
                 (mirrorRow ''acme/gears'' ''gears'')\<lparr>Description := ''kept''\<rparr>]",
      THEN conjunct2, THEN conjunct2, THEN conjunct1, rule_format, OF b, THEN conjunct2]
  have 4: "map (\<lambda>r. if uri_eq citext_sem (URI r) ''acme/widgets'' then [] else Description r)
        [(mirrorRow ''acme/widgets'' ''widgets'')\<lparr>Description := ''old''\<rparr>,
         (mirrorRow ''acme/gears'' ''gears'')\<lparr>Description := ''kept''\<rparr>] = [[], ''kept'']"
    by code_simp
  from t1 have 1: "map Description (snd (Update (pg_Exec citext_sem)
      [(mirrorRow ''acme/widgets'' ''widgets'')\<lparr>Description := ''old''\<rparr>] languageOnly)) = [''old'']"
    by simp
  from t2 [THEN conjunct1] r have 2: \<open>(''UPDATE repo SET "description"=$1 WHERE uri=$2'',
        [AString [], AString ''acme/widgets'']) \<in> set (snd (Update log_Exec [] blankDescription))\<close>
    by simp
  from t2 [THEN conjunct2] r 4 have 3: "map Description (snd (Update (pg_Exec citext_sem)
      [(mirrorRow ''acme/widgets'' ''widgets'')\<lparr>Description := ''old''\<rparr>,
       (mirrorRow ''acme/gears'' ''gears'')\<lparr>Description := ''kept''\<rparr>] blankDescription)) = [[], ''kept'']"
    by simp
  from d b 1 2 3 show ?thesis by blast
qed

section \<open>The rows that the WHERE clause admits\<close>














lemma listStmt_conds_ok': "listStmt ToLower opt = Inr (q, args) \<Longrightarrow> list_all (cond_ok args) (conds q)"
  by (drule listStmt_ok) (simp add: stmt_ok_def)

lemma row_le_append:
  assumes "stmt_ok q args"
  shows "row_le sem (args @ ext) (q\<lparr>limitOffset := lo\<rparr>) = row_le sem args q"
proof (intro ext)
  fix a b
  show "row_le sem (args @ ext) (q\<lparr>limitOffset := lo\<rparr>) a b = row_le sem args q a b"
    using assms
    by (auto simp: row_le_def stmt_ok_def exactName_def isStr_def argStr_append split: option.splits)
qed

lemma List_result:
  assumes "listStmt ToLower opt = Inr (q, args)"
  shows "List ToLower sem db opt =
     (if PerPageOrDefault opt < 0 \<or> Offset opt < 0 then Inl ExecutionFailure
      else Inr (toRepos (take (nat (PerPageOrDefault opt)) (drop (nat (Offset opt))
             (sortBy (row_le sem args q) (filter (admits ToLower sem opt) db))))))"
proof -
  let ?q = "q\<lparr>limitOffset := Some (length args, length args + 1)\<rparr>"
  let ?args = "args @ [AInt (PerPageOrDefault opt), AInt (Offset opt)]"
  have s: "List_stmt ToLower opt = Inr (?q, ?args)" using assms by (simp add: List_stmt_def)
  have ok: "stmt_ok ?q ?args" by (rule List_stmt_ok [OF s])
  have w: "eval_where sem (args @ ext) (conds q) = admits ToLower sem opt" for ext
    using assms listStmt_conds_ok' [OF assms]
    by (intro ext) (simp add: admits_def eval_where_append)
  note o = row_le_append [OF listStmt_ok [OF assms]]
  have "pg_select sem db ?q ?args =
     (if PerPageOrDefault opt < 0 \<or> Offset opt < 0 then Inl ExecutionFailure
      else Inr (take (nat (PerPageOrDefault opt)) (drop (nat (Offset opt))
             (sortBy (row_le sem args q) (filter (admits ToLower sem opt) db)))))"
    using ok by (simp add: pg_select_def w o argInt_def nth_append)
  then show ?thesis by (simp add: List_def s query_def)
qed

lemma List_admits:
  assumes "List ToLower sem db opt = Inr rs" and "r' \<in> set rs"
  shows "\<exists>r \<in> set db. r' = toRepo r \<and> admits ToLower sem opt r"
proof (cases "listStmt ToLower opt")
  case (Inl e)
  with assms show ?thesis by (auto simp: List_of_listStmt_Inl split: if_splits)
next
  case (Inr p)
  obtain q args where "p = (q, args)" by (cases p)
  with Inr have l: "listStmt ToLower opt = Inr (q, args)" by simp
  let ?rows = "take (nat (PerPageOrDefault opt)) (drop (nat (Offset opt))
             (sortBy (row_le sem args q) (filter (admits ToLower sem opt) db)))"
  from assms(1) have "rs = toRepos ?rows"
    unfolding List_result [OF l] by (simp split: if_splits)
  with assms(2) obtain r where r: "r \<in> set ?rows" "r' = toRepo r"
    by (auto simp: toRepos_def)
  from r(1) have "r \<in> set (sortBy (row_le sem args q) (filter (admits ToLower sem opt) db))"
    by (blast dest: in_set_takeD in_set_dropD)
  then have "r \<in> set db \<and> admits ToLower sem opt r" by (simp add: set_sortBy)
  with r(2) show ?thesis by blast
qed





section \<open>The identifiers of the options\<close>






end
